theory Spec2Isabelle
  imports Complex_Main
begin

section \<open>JavaScript numbers\<close>

text \<open>
  A JavaScript \<^verbatim>\<open>number\<close> is a binary64 value: a finite real, one of the two
  infinities, or NaN. A finite value is modelled by the real number it is; the reals
  that are binary64 values are the results of \<open>binary64\<close> below, and a statement proved
  for every \<open>number\<close> covers every value the program can hold. The two zeros are
  identified: the program observes numbers only through \<^verbatim>\<open>>=\<close>, \<^verbatim>\<open><\<close>,
  \<^verbatim>\<open>Math.abs\<close> and \<^verbatim>\<open>toFixed\<close> of a non-negative value, none of which tells
  \<^verbatim>\<open>-0\<close> from \<^verbatim>\<open>+0\<close>.
\<close>

datatype number = Num real | NaN | PosInf | NegInf

text \<open>\<^verbatim>\<open>a < b\<close>: false as soon as one side is NaN.\<close>

fun js_lt :: "number \<Rightarrow> number \<Rightarrow> bool" where
  "js_lt NaN _ = False"
| "js_lt _ NaN = False"
| "js_lt (Num a) (Num b) = (a < b)"
| "js_lt _ NegInf = False"
| "js_lt NegInf _ = True"
| "js_lt PosInf _ = False"
| "js_lt (Num a) PosInf = True"

text \<open>\<^verbatim>\<open>a >= b\<close>: false as soon as one side is NaN, otherwise the negation of \<^verbatim>\<open>a < b\<close>.\<close>

fun js_ge :: "number \<Rightarrow> number \<Rightarrow> bool" where
  "js_ge NaN _ = False"
| "js_ge _ NaN = False"
| "js_ge a b = (\<not> js_lt a b)"

text \<open>\<^verbatim>\<open>a <= b\<close>, used only to state monotonicity.\<close>

definition js_le :: "number \<Rightarrow> number \<Rightarrow> bool" where
  "js_le a b = js_ge b a"

text \<open>Unary minus and \<^verbatim>\<open>Math.abs\<close>.\<close>

fun js_neg :: "number \<Rightarrow> number" where
  "js_neg (Num a) = Num (- a)"
| "js_neg NaN = NaN"
| "js_neg PosInf = NegInf"
| "js_neg NegInf = PosInf"

fun Math_abs :: "number \<Rightarrow> number" where
  "Math_abs (Num a) = Num \<bar>a\<bar>"
| "Math_abs NaN = NaN"
| "Math_abs PosInf = PosInf"
| "Math_abs NegInf = PosInf"

section \<open>Binary64 rounding\<close>

text \<open>\<open>pow2 e\<close> is \<open>2\<close> to the power \<open>e\<close>, for an integer \<open>e\<close> of either sign.\<close>

definition pow2 :: "int \<Rightarrow> real" where
  "pow2 e = (if 0 \<le> e then 2 ^ nat e else 1 / 2 ^ nat (- e))"

text \<open>
  \<open>ilog2 x\<close> is the binary exponent of a positive \<open>x\<close>, the integer \<open>k\<close> with
  \<open>2^k \<le> x < 2^(k+1)\<close>, found by halving or doubling.
\<close>

function ilog2 :: "real \<Rightarrow> int" where
  "ilog2 x =
     (if x \<le> 0 then 0
      else if 2 \<le> x then ilog2 (x / 2) + 1
      else if x < 1 then ilog2 (x * 2) - 1
      else 0)"
  by pat_completeness auto
termination
proof (relation "measure (\<lambda>x. nat \<bar>\<lfloor>log 2 x\<rfloor>\<bar>)")
  show "wf (measure (\<lambda>x. nat \<bar>\<lfloor>log 2 x\<rfloor>\<bar>))" by simp
next
  fix x :: real
  assume "\<not> x \<le> 0" and x: "2 \<le> x"
  then have "log 2 (x / 2) = log 2 x - 1" by (simp add: log_divide)
  moreover have "1 \<le> log 2 x" using x by (simp add: le_log_iff)
  then have "1 \<le> \<lfloor>log 2 x\<rfloor>" by (simp add: le_floor_iff)
  ultimately show "(x / 2, x) \<in> measure (\<lambda>x. nat \<bar>\<lfloor>log 2 x\<rfloor>\<bar>)"
    by simp
next
  fix x :: real
  assume pos: "\<not> x \<le> 0" and "\<not> 2 \<le> x" and x: "x < 1"
  then have "log 2 (x * 2) = log 2 x + 1" by (simp add: log_mult)
  moreover have "log 2 x < 0" using pos x by simp
  then have "\<lfloor>log 2 x\<rfloor> < 0" by (simp only: floor_less_zero)
  then have "\<lfloor>log 2 x\<rfloor> \<le> - 1" by linarith
  ultimately show "(x * 2, x) \<in> measure (\<lambda>x. nat \<bar>\<lfloor>log 2 x\<rfloor>\<bar>)"
    by (simp del: floor_less_iff; linarith)
qed

declare ilog2.simps [simp del]

text \<open>
  The integer nearest to \<open>q\<close>, the even one of the two when \<open>q\<close> is halfway:
  \<open>nearest_even f d\<close> chooses between \<open>f\<close> and \<open>f + 1\<close> for a value \<open>f + d\<close>.
\<close>

definition nearest_even :: "int \<Rightarrow> real \<Rightarrow> int" where
  "nearest_even f d =
     (if d < 1 / 2 then f
      else if 1 / 2 < d then f + 1
      else if even f then f else f + 1)"

definition round_half_even :: "real \<Rightarrow> int" where
  "round_half_even q = nearest_even \<lfloor>q\<rfloor> (q - of_int \<lfloor>q\<rfloor>)"

text \<open>
  \<open>binary64 x\<close> is the binary64 value that the real \<open>x\<close> rounds to (IEEE 754,
  round to nearest, ties to even): the result of every arithmetic operation of the
  program, and the value a decimal literal denotes. The significand has 53 bits, so the
  spacing of the values around \<open>x\<close> is \<open>2^(k - 52)\<close> for the binary exponent \<open>k\<close> of
  \<open>\<bar>x\<bar>\<close>, and it is \<open>2^(- 1074)\<close> below the smallest normal number \<open>2^(- 1022)\<close>:
  \<open>round_to e x\<close> rounds \<open>x\<close> to a multiple of \<open>2^e\<close>. A rounded magnitude of
  \<open>2^1024\<close> or more overflows to an infinity.
\<close>

definition overflow :: "real \<Rightarrow> number" where
  "overflow v =
     (if 2 ^ 1024 \<le> v then PosInf else if v \<le> - (2 ^ 1024) then NegInf else Num v)"

definition round_to :: "int \<Rightarrow> real \<Rightarrow> number" where
  "round_to e x = overflow (of_int (round_half_even (x / pow2 e)) * pow2 e)"

definition binary64 :: "real \<Rightarrow> number" where
  "binary64 x =
     (if x = 0 then Num 0 else round_to (max (ilog2 \<bar>x\<bar>) (- 1022) - 52) x)"

section \<open>Arithmetic\<close>

text \<open>\<^verbatim>\<open>a - b\<close>, rounded to binary64.\<close>

fun js_sub :: "number \<Rightarrow> number \<Rightarrow> number" where
  "js_sub NaN _ = NaN"
| "js_sub _ NaN = NaN"
| "js_sub (Num a) (Num b) = binary64 (a - b)"
| "js_sub PosInf PosInf = NaN"
| "js_sub NegInf NegInf = NaN"
| "js_sub PosInf _ = PosInf"
| "js_sub NegInf _ = NegInf"
| "js_sub (Num a) PosInf = NegInf"
| "js_sub (Num a) NegInf = PosInf"

text \<open>
  \<^verbatim>\<open>x * 10\<close> and \<^verbatim>\<open>x / 10\<close>, the only products and quotients of the program, rounded
  to binary64.
\<close>

fun mul10 :: "number \<Rightarrow> number" where
  "mul10 (Num a) = binary64 (a * 10)"
| "mul10 x = x"

fun div10 :: "number \<Rightarrow> number" where
  "div10 (Num a) = binary64 (a / 10)"
| "div10 x = x"

text \<open>
  \<^verbatim>\<open>Math.round(x)\<close>: the integer nearest to \<open>x\<close>, a tie going towards \<open>+\<infinity>\<close>, that is
  \<open>\<lfloor>x + 1/2\<rfloor>\<close>; NaN and the infinities are returned unchanged. For a binary64 \<open>x\<close>
  that integer is a binary64 value, so nothing is rounded a second time.
\<close>

fun Math_round :: "number \<Rightarrow> number" where
  "Math_round (Num a) = Num (of_int \<lfloor>a + 1 / 2\<rfloor>)"
| "Math_round x = x"

text \<open>
  A value that may be \<^verbatim>\<open>undefined\<close> (what reading a missing property gives) is a
  \<open>number option\<close>; \<open>ToNumber\<close> is the conversion JavaScript applies to it in a
  comparison or a subtraction.
\<close>

fun ToNumber :: "number option \<Rightarrow> number" where
  "ToNumber None = NaN"
| "ToNumber (Some x) = x"

section \<open>Data model of \<^verbatim>\<open>apca.ts\<close>\<close>

datatype UseCase = BodyText | LargeText | UiComponent | NonText | Placeholder | Disabled

datatype FontWeight = Normal | Bold

datatype Polarity = DarkOnLight | LightOnDark

datatype Rating = Rating_AAA | Rating_AA | Rating_A | Rating_fail

text \<open>The string each \<^verbatim>\<open>UseCase\<close> literal is, as a template literal prints it.\<close>

fun UseCase_string :: "UseCase \<Rightarrow> string" where
  "UseCase_string BodyText = ''body-text''"
| "UseCase_string LargeText = ''large-text''"
| "UseCase_string UiComponent = ''ui-component''"
| "UseCase_string NonText = ''non-text''"
| "UseCase_string Placeholder = ''placeholder''"
| "UseCase_string Disabled = ''disabled''"

record ContrastResult =
  lc :: number
  lcAbsolute :: number
  passes :: bool
  minimumLc :: "number option"
  polarity :: Polarity
  recommendation :: "string option"
  rating :: Rating

text \<open>The \<^verbatim>\<open>options\<close> object of \<^verbatim>\<open>checkContrast\<close>: every field may be missing.\<close>

record Options =
  fontSize :: "number option"
  fontWeight :: "FontWeight option"
  useCase :: "UseCase option"

text \<open>The only failure: the contrast primitive rejects a colour string.\<close>

datatype error = ColorParseError

section \<open>Threshold policy\<close>

text \<open>
  \<^verbatim>\<open>USE_CASE_THRESHOLDS\<close> is an object literal read by key; reading a key it does not
  have gives \<^verbatim>\<open>undefined\<close>, here \<open>None\<close>.
\<close>

definition USE_CASE_THRESHOLDS :: "UseCase \<rightharpoonup> number" where
  "USE_CASE_THRESHOLDS = map_of
     [(BodyText, Num 75),
      (LargeText, Num 60),
      (UiComponent, Num 60),
      (NonText, Num 45),
      (Placeholder, Num 45),
      (Disabled, Num 45)]"

definition getMinimumLc :: "UseCase \<Rightarrow> number \<Rightarrow> FontWeight \<Rightarrow> number option" where
  "getMinimumLc uc fs fw =
     (if uc \<noteq> BodyText then USE_CASE_THRESHOLDS uc
      else
        let isLarge = js_ge fs (Num 24);
            isBold = (fw = Bold)
        in if isLarge \<or> isBold then Some (Num 60) else Some (Num 75))"

section \<open>Rating\<close>

definition getRating :: "number \<Rightarrow> Rating" where
  "getRating la =
     (if js_ge la (Num 90) then Rating_AAA
      else if js_ge la (Num 75) then Rating_AA
      else if js_ge la (Num 60) then Rating_A
      else Rating_fail)"

text \<open>The order of the tiers, \<open>fail < A < AA < AAA\<close>, used to state monotonicity.\<close>

fun Rating_rank :: "Rating \<Rightarrow> nat" where
  "Rating_rank Rating_fail = 0"
| "Rating_rank Rating_A = 1"
| "Rating_rank Rating_AA = 2"
| "Rating_rank Rating_AAA = 3"

section \<open>Numbers as text\<close>

text \<open>The character of a decimal digit.\<close>

definition digit :: "nat \<Rightarrow> char" where
  "digit d = ''0123456789'' ! (d mod 10)"

text \<open>The decimal digits of a natural number, most significant first.\<close>

fun string_of_nat :: "nat \<Rightarrow> string" where
  "string_of_nat n =
     (if n < 10 then [digit n] else string_of_nat (n div 10) @ [digit (n mod 10)])"

declare string_of_nat.simps [simp del]

text \<open>
  \<^verbatim>\<open>Number.prototype.toString\<close>, which a template literal applies to a number. For an
  integer of magnitude at most \<open>2^53\<close> it is the decimal digits with a leading \<^verbatim>\<open>-\<close>
  for a negative value. For any other finite value JavaScript prints the shortest
  decimal that reads back as the same binary64 value, which is a property of the binary64
  representation and not of the real number: the model leaves that text unspecified.
\<close>

fun Number_toString :: "number \<Rightarrow> string" where
  "Number_toString NaN = ''NaN''"
| "Number_toString PosInf = ''Infinity''"
| "Number_toString NegInf = ''-Infinity''"
| "Number_toString (Num a) =
     (if of_int \<lfloor>a\<rfloor> = a \<and> \<bar>a\<bar> \<le> 2 ^ 53
      then (if a < 0 then ''-'' else []) @ string_of_nat (nat \<bar>\<lfloor>a\<rfloor>\<bar>)
      else undefined)"

text \<open>
  \<^verbatim>\<open>x.toFixed(f)\<close> (ECMA-262, Number.prototype.toFixed): the sign is taken off, a value
  of \<open>10^21\<close> or more is printed by \<^verbatim>\<open>toString\<close>, and otherwise \<open>n\<close> is the integer
  with \<open>n / 10^f\<close> nearest to the value (the larger one on a tie), printed with the
  decimal point before its last \<open>f\<close> digits, padded with zeros to \<open>f + 1\<close> digits.
\<close>

definition toFixed :: "number \<Rightarrow> nat \<Rightarrow> string" where
  "toFixed x f =
     (case x of
        NaN \<Rightarrow> ''NaN''
      | PosInf \<Rightarrow> ''Infinity''
      | NegInf \<Rightarrow> ''-Infinity''
      | Num a \<Rightarrow>
          let s = (if a < 0 then ''-'' else []);
              b = \<bar>a\<bar>
          in if b \<ge> 10 ^ 21 then s @ Number_toString (Num b)
             else
               let n = nat \<lfloor>b * 10 ^ f + 1 / 2\<rfloor>;
                   m = string_of_nat n;
                   m = (if f \<noteq> 0
                        then
                          let k = length m;
                              m = (if k \<le> f then replicate (f + 1 - k) (CHR ''0'') @ m else m);
                              k = length m
                          in take (k - f) m @ ''.'' @ drop (k - f) m
                        else m)
               in s @ m)"

text \<open>What a template literal prints for a value that may be \<^verbatim>\<open>undefined\<close>.\<close>

fun template_number :: "number option \<Rightarrow> string" where
  "template_number None = ''undefined''"
| "template_number (Some x) = Number_toString x"

section \<open>Recommendation\<close>

definition getRecommendation ::
  "bool \<Rightarrow> number \<Rightarrow> number option \<Rightarrow> UseCase \<Rightarrow> string option" where
  "getRecommendation p la ml uc =
     (if p then None
      else
        let deficit = js_sub (ToNumber ml) la
        in if js_lt la (Num 15) then
             Some (''Contrast is too low for any text use. Current Lc: '' @ toFixed la 1
                   @ '', need at least '' @ template_number ml
                   @ '' for '' @ UseCase_string uc @ ''.'')
           else if js_lt la (Num 45) then
             Some (''Only suitable for decorative or non-essential elements. Increase contrast by ~''
                   @ toFixed deficit 0 @ '' Lc points for '' @ UseCase_string uc @ ''.'')
           else
             Some (''Increase contrast by ~'' @ toFixed deficit 0
                   @ '' Lc points. Try darkening the text or lightening the background (or vice versa for dark mode).''))"

section \<open>The evaluator\<close>

text \<open>
  \<^verbatim>\<open>calcAPCA\<close> is imported from the package \<^verbatim>\<open>apca-w3\<close>: it is a parameter of the
  model, a function from the two colour strings to a signed score, or to the error it
  throws on a string it cannot parse. \<^verbatim>\<open>checkContrast\<close> does not catch that error.
  The argument \<open>options\<close> is \<open>None\<close> when the caller leaves it out, in which case it is
  the empty object, and a missing field takes its default.
\<close>

definition default_to :: "'a \<Rightarrow> 'a option \<Rightarrow> 'a" where
  "default_to d v = (case v of None \<Rightarrow> d | Some x \<Rightarrow> x)"

definition no_options :: Options where
  "no_options = \<lparr>fontSize = None, fontWeight = None, useCase = None\<rparr>"

definition checkContrast ::
  "(string \<Rightarrow> string \<Rightarrow> error + number) \<Rightarrow> string \<Rightarrow> string \<Rightarrow> Options option
     \<Rightarrow> error + ContrastResult" where
  "checkContrast calcAPCA fg bg options =
     (let opts = default_to no_options options;
          fs = default_to (Num 16) (fontSize opts);
          fw = default_to Normal (fontWeight opts);
          uc = default_to BodyText (useCase opts)
      in case calcAPCA fg bg of
           Inl e \<Rightarrow> Inl e
         | Inr l \<Rightarrow>
             let la = Math_abs l;
                 pol = (if js_ge l (Num 0) then DarkOnLight else LightOnDark);
                 ml = getMinimumLc uc fs fw;
                 p = js_ge la (ToNumber ml);
                 rt = getRating la;
                 rec = getRecommendation p la ml uc
             in Inr \<lparr>lc = div10 (Math_round (mul10 l)),
                     lcAbsolute = div10 (Math_round (mul10 la)),
                     passes = p,
                     minimumLc = ml,
                     polarity = pol,
                     recommendation = rec,
                     rating = rt\<rparr>)"

text \<open>
  A stand-in for \<^verbatim>\<open>calcAPCA\<close>, to run the evaluator on: the score of each colour pair
  is read from a table, and a pair the table does not list is rejected.
\<close>

definition table_calcAPCA ::
  "((string \<times> string) \<times> number) list \<Rightarrow> string \<Rightarrow> string \<Rightarrow> error + number" where
  "table_calcAPCA tbl fg bg =
     (case map_of tbl (fg, bg) of None \<Rightarrow> Inl ColorParseError | Some x \<Rightarrow> Inr x)"

section \<open>The \<^verbatim>\<open>check_contrast\<close> tool\<close>

text \<open>
  The handler registered for \<^verbatim>\<open>check_contrast\<close> receives the parsed arguments as a
  JSON object and answers with one text item, the \<^verbatim>\<open>JSON.stringify\<close> of an object it
  builds. \<^verbatim>\<open>JSON.stringify(\<cdot>, null, 2)\<close> is a parameter of the model.
\<close>

datatype json =
    JNull
  | JBool bool
  | JNumber number
  | JString string
  | JArray "json list"
  | JObject "(string \<times> json) list"

record TextContent =
  content_type :: string
  content_text :: string

record ToolResult =
  content :: "TextContent list"

definition check_contrast_handler :: "(json \<Rightarrow> string) \<Rightarrow> json \<Rightarrow> ToolResult" where
  "check_contrast_handler JSON_stringify args =
     \<lparr>content =
        [\<lparr>content_type = ''text'',
          content_text = JSON_stringify
            (JObject
               [(''status'', JString ''not_implemented''),
                (''message'', JString ''APCA contrast checking will be implemented in issue #2''),
                (''input'', args)])\<rparr>]\<rparr>"

section \<open>Auxiliary facts\<close>

text \<open>The context after the defaults of \<^verbatim>\<open>checkContrast\<close> are applied.\<close>

abbreviation useCase_of :: "Options option \<Rightarrow> UseCase" where
  "useCase_of options \<equiv> default_to BodyText (useCase (default_to no_options options))"

abbreviation fontSize_of :: "Options option \<Rightarrow> number" where
  "fontSize_of options \<equiv> default_to (Num 16) (fontSize (default_to no_options options))"

abbreviation fontWeight_of :: "Options option \<Rightarrow> FontWeight" where
  "fontWeight_of options \<equiv> default_to Normal (fontWeight (default_to no_options options))"

abbreviation minimumLc_of :: "Options option \<Rightarrow> number option" where
  "minimumLc_of options \<equiv>
     getMinimumLc (useCase_of options) (fontSize_of options) (fontWeight_of options)"

lemma getMinimumLc_value:
  "getMinimumLc uc fs fw =
     Some (Num (case uc of
        BodyText \<Rightarrow> if js_ge fs (Num 24) \<or> fw = Bold then 60 else 75
      | LargeText \<Rightarrow> 60 | UiComponent \<Rightarrow> 60
      | NonText \<Rightarrow> 45 | Placeholder \<Rightarrow> 45 | Disabled \<Rightarrow> 45))"
  by (cases uc) (simp_all add: getMinimumLc_def USE_CASE_THRESHOLDS_def)

lemma getMinimumLc_range:
  "getMinimumLc uc fs fw = Some (Num 45) \<or> getMinimumLc uc fs fw = Some (Num 60)
   \<or> getMinimumLc uc fs fw = Some (Num 75)"
  by (cases uc) (simp_all add: getMinimumLc_value)

lemma checkContrast_Inr:
  assumes "calcAPCA fg bg = Inr l"
  shows "checkContrast calcAPCA fg bg options =
     Inr \<lparr>lc = div10 (Math_round (mul10 l)),
          lcAbsolute = div10 (Math_round (mul10 (Math_abs l))),
          passes = js_ge (Math_abs l) (ToNumber (minimumLc_of options)),
          minimumLc = minimumLc_of options,
          polarity = (if js_ge l (Num 0) then DarkOnLight else LightOnDark),
          recommendation = getRecommendation
             (js_ge (Math_abs l) (ToNumber (minimumLc_of options)))
             (Math_abs l) (minimumLc_of options) (useCase_of options),
          rating = getRating (Math_abs l)\<rparr>"
  using assms by (simp add: checkContrast_def Let_def)

lemma checkContrast_Inl:
  "calcAPCA fg bg = Inl e \<Longrightarrow> checkContrast calcAPCA fg bg options = Inl e"
  by (simp add: checkContrast_def Let_def)

lemma checkContrast_score:
  "checkContrast calcAPCA fg bg options = Inr r \<Longrightarrow> \<exists>l. calcAPCA fg bg = Inr l"
  by (cases "calcAPCA fg bg") (simp_all add: checkContrast_Inl)

lemma checkContrast_fields:
  assumes "checkContrast calcAPCA fg bg options = Inr r"
  obtains l where "calcAPCA fg bg = Inr l"
    and "lc r = div10 (Math_round (mul10 l))"
    and "lcAbsolute r = div10 (Math_round (mul10 (Math_abs l)))"
    and "passes r = js_ge (Math_abs l) (ToNumber (minimumLc r))"
    and "minimumLc r = minimumLc_of options"
    and "polarity r = (if js_ge l (Num 0) then DarkOnLight else LightOnDark)"
    and "recommendation r =
           getRecommendation (passes r) (Math_abs l) (minimumLc r) (useCase_of options)"
    and "rating r = getRating (Math_abs l)"
proof -
  from assms obtain l where l: "calcAPCA fg bg = Inr l"
    using checkContrast_score by blast
  have r: "r = \<lparr>lc = div10 (Math_round (mul10 l)),
          lcAbsolute = div10 (Math_round (mul10 (Math_abs l))),
          passes = js_ge (Math_abs l) (ToNumber (minimumLc_of options)),
          minimumLc = minimumLc_of options,
          polarity = (if js_ge l (Num 0) then DarkOnLight else LightOnDark),
          recommendation = getRecommendation
             (js_ge (Math_abs l) (ToNumber (minimumLc_of options)))
             (Math_abs l) (minimumLc_of options) (useCase_of options),
          rating = getRating (Math_abs l)\<rparr>"
    using assms checkContrast_Inr [of calcAPCA fg bg l options] l by simp
  show thesis
    by (rule that [of l]) (simp_all add: l r)
qed

text \<open>Facts about the binary exponent and about rounding to binary64.\<close>

lemma pow2_pos: "0 < pow2 e"
  by (simp add: pow2_def)

lemma pow2_Suc: "pow2 (e + 1) = 2 * pow2 e"
proof (cases "0 \<le> e")
  case True
  then have "nat (e + 1) = Suc (nat e)" by simp
  with True show ?thesis by (simp add: pow2_def)
next
  case False
  show ?thesis
  proof (cases "e = - 1")
    case True
    then show ?thesis by (simp add: pow2_def)
  next
    case ne: False
    with False have "nat (- e) = Suc (nat (- (e + 1)))" by simp
    with False ne show ?thesis by (simp add: pow2_def)
  qed
qed

lemma pow2_pred: "pow2 (e - 1) = pow2 e / 2"
  using pow2_Suc [of "e - 1"] by simp

lemma ilog2_bounds:
  "0 < x \<Longrightarrow> pow2 (ilog2 x) \<le> x \<and> x < pow2 (ilog2 x + 1)"
proof (induction x rule: ilog2.induct)
  case (1 x)
  show ?case
  proof (cases "2 \<le> x")
    case True
    with 1 have ih: "pow2 (ilog2 (x / 2)) \<le> x / 2 \<and> x / 2 < pow2 (ilog2 (x / 2) + 1)"
      by simp
    from True "1.prems" have eq: "ilog2 x = ilog2 (x / 2) + 1"
      by (subst ilog2.simps) simp
    have "pow2 (ilog2 (x / 2) + 1) = 2 * pow2 (ilog2 (x / 2))"
      and "pow2 (ilog2 (x / 2) + 1 + 1) = 2 * pow2 (ilog2 (x / 2) + 1)"
      by (rule pow2_Suc)+
    with ih show ?thesis
      unfolding eq by linarith
  next
    case False
    show ?thesis
    proof (cases "x < 1")
      case True
      with 1 False have ih: "pow2 (ilog2 (x * 2)) \<le> x * 2 \<and> x * 2 < pow2 (ilog2 (x * 2) + 1)"
        by simp
      from True False "1.prems" have eq: "ilog2 x = ilog2 (x * 2) - 1"
        by (subst ilog2.simps) simp
      have "pow2 (ilog2 (x * 2) - 1) = pow2 (ilog2 (x * 2)) / 2"
        by (rule pow2_pred)
      moreover have "pow2 (ilog2 (x * 2) - 1 + 1) = 2 * pow2 (ilog2 (x * 2) - 1)"
        and "pow2 (ilog2 (x * 2) + 1) = 2 * pow2 (ilog2 (x * 2))"
        by (rule pow2_Suc)+
      ultimately show ?thesis
        using ih unfolding eq by linarith
    next
      case ge: False
      with False "1.prems" have "ilog2 x = 0"
        by (subst ilog2.simps) simp
      with False ge show ?thesis by (simp add: pow2_def)
    qed
  qed
qed

lemma pow2_mono: "a \<le> b \<Longrightarrow> pow2 a \<le> pow2 b"
proof -
  assume ab: "a \<le> b"
  have eq: "pow2 e = 2 powr (of_int e)" for e
  proof (cases "0 \<le> e")
    case True
    then have "2 powr (of_int e :: real) = 2 powr (real (nat e))" by simp
    also have "\<dots> = 2 ^ nat e" by (simp add: powr_realpow)
    finally show ?thesis using True by (simp add: pow2_def)
  next
    case False
    then have "2 powr (of_int e :: real) = 2 powr (- real (nat (- e)))" by simp
    also have "\<dots> = 1 / 2 ^ nat (- e)" by (simp add: powr_minus powr_realpow divide_inverse)
    finally show ?thesis using False by (simp add: pow2_def)
  qed
  from ab show ?thesis unfolding eq by (simp add: powr_mono)
qed

lemma round_half_even_ge: "\<lfloor>q\<rfloor> \<le> round_half_even q"
  by (simp add: round_half_even_def nearest_even_def)

lemma round_half_even_minus: "round_half_even (- q) = - round_half_even q"
proof (cases "q = of_int \<lfloor>q\<rfloor>")
  case True
  then obtain k :: int where q: "q = of_int k" by blast
  have "\<lfloor>- (of_int k :: real)\<rfloor> = - k" by (metis floor_of_int of_int_minus)
  then show ?thesis by (simp add: round_half_even_def nearest_even_def q)
next
  case False
  define f where "f = \<lfloor>q\<rfloor>"
  have lo: "of_int f < q" using False of_int_floor_le [of q] unfolding f_def by linarith
  have hi: "q < of_int f + 1" using floor_correct [of q] by (simp add: f_def)
  have fl: "\<lfloor>- q\<rfloor> = - f - 1"
    by (rule floor_unique) (use lo hi in simp_all)
  have par: "even (- f - 1) = odd f" by simp
  show ?thesis
    using lo hi par
    by (simp add: round_half_even_def nearest_even_def fl flip: f_def)
qed


lemma overflow_minus: "overflow (- v) = js_neg (overflow v)"
  by (simp add: overflow_def)

lemma binary64_minus: "binary64 (- x) = js_neg (binary64 x)"
  by (simp add: binary64_def round_to_def round_half_even_minus overflow_minus)

lemma binary64_ge:
  fixes y :: int
  assumes y: "0 < y" "y < 2 ^ 53" and yx: "of_int y \<le> x"
  shows "js_ge (binary64 x) (Num (of_int y))"
proof -
  from y yx have x: "0 < x" by linarith
  define e where "e = max (ilog2 \<bar>x\<bar>) (- 1022) - 52"
  define q where "q = x / pow2 e"
  define v where "v = of_int (round_half_even q) * pow2 e"
  have b: "binary64 x = overflow v"
    using x by (simp add: binary64_def round_to_def e_def q_def v_def)
  have "\<exists>j :: int. of_int y \<le> of_int j * pow2 e \<and> of_int j \<le> q"
  proof (cases "e \<le> 0")
    case True
    then have p: "pow2 e = 1 / 2 ^ nat (- e)"
      by (cases "e = 0") (simp_all add: pow2_def)
    have "of_int y \<le> of_int (y * 2 ^ nat (- e)) * pow2 e"
      by (simp add: p)
    moreover have "of_int (y * 2 ^ nat (- e)) \<le> q"
      using yx by (simp add: q_def p)
    ultimately show ?thesis by blast
  next
    case False
    then have E: "ilog2 \<bar>x\<bar> = e + 52" "53 \<le> ilog2 \<bar>x\<bar>"
      by (simp_all add: e_def max_def split: if_splits)
    have "pow2 (ilog2 x) \<le> x" using ilog2_bounds [OF x] by simp
    with x E have px: "pow2 (e + 52) \<le> x" by simp
    have split: "pow2 (e + 52) = 2 ^ 52 * pow2 e"
      using False by (simp add: pow2_def nat_add_distrib power_add)
    have "pow2 53 \<le> pow2 (e + 52)" using E by (intro pow2_mono) simp
    then have "(2 :: real) ^ 53 \<le> pow2 (e + 52)" by (simp add: pow2_def)
    moreover have "(of_int y :: real) < 2 ^ 53"
      using y(2) by (metis of_int_less_numeral_power_cancel_iff)
    ultimately have "of_int y \<le> of_int (2 ^ 52) * pow2 e"
      using split by simp
    moreover have "of_int (2 ^ 52) \<le> q"
      using px split pow2_pos [of e] by (simp add: q_def pos_le_divide_eq)
    ultimately show ?thesis by blast
  qed
  then obtain j :: int where j: "of_int y \<le> of_int j * pow2 e" "of_int j \<le> q"
    by blast
  from j(2) have "j \<le> \<lfloor>q\<rfloor>" by (simp add: le_floor_iff)
  with round_half_even_ge [of q] have "j \<le> round_half_even q" by linarith
  then have "(of_int j :: real) \<le> of_int (round_half_even q)" by simp
  then have "of_int j * pow2 e \<le> v"
    using pow2_pos [of e] by (simp add: v_def)
  with j(1) have "of_int y \<le> v" by linarith
  with y(1) show ?thesis by (simp add: b overflow_def)
qed

lemma binary64_nonneg: "0 \<le> x \<Longrightarrow> js_ge (binary64 x) (Num 0)"
proof (cases "x = 0")
  case True
  then show ?thesis by (simp add: binary64_def)
next
  case False
  assume "0 \<le> x"
  with False have x: "0 < x" by simp
  define e where "e = max (ilog2 \<bar>x\<bar>) (- 1022) - 52"
  have "0 \<le> x / pow2 e" using x pow2_pos [of e] by simp
  then have "0 \<le> \<lfloor>x / pow2 e\<rfloor>" by simp
  with round_half_even_ge [of "x / pow2 e"] have "0 \<le> round_half_even (x / pow2 e)"
    by linarith
  then have "0 \<le> of_int (round_half_even (x / pow2 e)) * pow2 e"
    using pow2_pos [of e] by simp
  then show ?thesis using x by (simp add: binary64_def round_to_def overflow_def e_def)
qed

lemma Math_abs_nonneg: "js_ge w (Num 0) \<Longrightarrow> Math_abs w = w"
  by (cases w) simp_all

lemma Math_abs_binary64: "Math_abs (binary64 x) = binary64 \<bar>x\<bar>"
proof (cases "0 \<le> x")
  case True
  then show ?thesis by (simp add: Math_abs_nonneg binary64_nonneg)
next
  case False
  then have "binary64 x = js_neg (binary64 \<bar>x\<bar>)"
    using binary64_minus [of "\<bar>x\<bar>"] by simp
  moreover have "Math_abs (js_neg w) = Math_abs w" for w by (cases w) simp_all
  ultimately show ?thesis by (simp add: Math_abs_nonneg binary64_nonneg)
qed

text \<open>
  \<^verbatim>\<open>Math.round\<close> commutes with negation except at a tie, and the three steps of
  rounding to one decimal commute with negation and with \<^verbatim>\<open>Math.abs\<close> accordingly.
\<close>

lemma round_neg:
  fixes x :: real
  assumes "frac x \<noteq> 1 / 2"
  shows "\<lfloor>- x + 1 / 2\<rfloor> = - \<lfloor>x + 1 / 2\<rfloor>"
proof (rule floor_unique)
  have lo: "of_int \<lfloor>x + 1 / 2\<rfloor> \<le> x + 1 / 2" by (rule of_int_floor_le)
  have hi: "x + 1 / 2 < of_int \<lfloor>x + 1 / 2\<rfloor> + 1" using floor_correct [of "x + 1 / 2"] by simp
  have ne: "x + 1 / 2 \<noteq> of_int \<lfloor>x + 1 / 2\<rfloor>"
  proof
    assume eq: "x + 1 / 2 = of_int \<lfloor>x + 1 / 2\<rfloor>"
    define n where "n = \<lfloor>x + 1 / 2\<rfloor> - 1"
    have x: "x = of_int n + 1 / 2" using eq by (simp add: n_def)
    have "\<lfloor>of_int n + (1 / 2 :: real)\<rfloor> = n" by (rule floor_unique) simp_all
    then have "frac x = 1 / 2" by (simp add: frac_def x)
    with assms show False by simp
  qed
  show "of_int (- \<lfloor>x + 1 / 2\<rfloor>) \<le> - x + 1 / 2"
    unfolding of_int_minus using hi by linarith
  show "- x + 1 / 2 < of_int (- \<lfloor>x + 1 / 2\<rfloor>) + 1"
    unfolding of_int_minus using lo ne by linarith
qed

lemma Math_abs_js_neg: "Math_abs (js_neg l) = Math_abs l"
  by (cases l) simp_all



lemma mul10_Math_abs: "mul10 (Math_abs l) = Math_abs (mul10 l)"
  by (cases l) (simp_all add: Math_abs_binary64 abs_mult)

lemma div10_Math_abs: "div10 (Math_abs l) = Math_abs (div10 l)"
  by (cases l) (simp_all add: Math_abs_binary64)


lemma Math_round_Math_abs:
  assumes "case w of Num v \<Rightarrow> 0 \<le> v \<or> frac v \<noteq> 1 / 2 | _ \<Rightarrow> True"
  shows "Math_round (Math_abs w) = Math_abs (Math_round w)"
proof (cases w)
  case (Num v)
  show ?thesis
  proof (cases "0 \<le> v")
    case True
    then have "0 \<le> \<lfloor>v + 1 / 2\<rfloor>" by simp
    with True show ?thesis by (simp add: Num)
  next
    case False
    with assms Num have tie: "frac v \<noteq> 1 / 2" by simp
    from False have "v + 1 / 2 < 1" by simp
    then have "\<lfloor>v + 1 / 2\<rfloor> < 1" by (simp only: floor_less_iff of_int_1)
    then have neg: "\<lfloor>v + 1 / 2\<rfloor> \<le> 0" by simp
    have "\<lfloor>\<bar>v\<bar> + 1 / 2\<rfloor> = - \<lfloor>v + 1 / 2\<rfloor>"
      using round_neg [OF tie] False by simp
    with neg show ?thesis by (simp add: Num)
  qed
qed simp_all

text \<open>Rounding to one decimal does not move a value below an integer it was not below.\<close>

lemma round1_ge:
  fixes k :: int
  assumes k: "0 < k" "k * 10 < 2 ^ 53" and w: "js_ge w (Num (of_int k))"
  shows "js_ge (div10 (Math_round (mul10 w))) (Num (of_int k))"
proof (cases w)
  case (Num b)
  with w have kb: "of_int k \<le> b" by simp
  then have "of_int (k * 10) \<le> b * 10" by simp
  with k have m: "js_ge (mul10 (Num b)) (Num (of_int (k * 10)))"
    by (intro binary64_ge [of "k * 10" "b * 10", folded mul10.simps]) simp_all
  show ?thesis
  proof (cases "mul10 (Num b)")
    case v: (Num v)
    with m have "of_int (k * 10) \<le> v" by simp
    then have "of_int (k * 10) \<le> v + 1 / 2" by simp
    then have "k * 10 \<le> \<lfloor>v + 1 / 2\<rfloor>" by (simp only: le_floor_iff)
    then have "(of_int (k * 10) :: real) \<le> of_int \<lfloor>v + 1 / 2\<rfloor>"
      by (simp only: of_int_le_iff)
    then have "of_int k \<le> of_int \<lfloor>v + 1 / 2\<rfloor> / (10 :: real)" by simp
    with k have "js_ge (binary64 (of_int \<lfloor>v + 1 / 2\<rfloor> / 10)) (Num (of_int k))"
      by (intro binary64_ge) simp_all
    moreover from v have "binary64 (b * 10) = Num v" by simp
    ultimately show ?thesis by (simp add: Num)
  next
    case NaN
    with m show ?thesis by simp
  next
    case PosInf
    then have "binary64 (b * 10) = PosInf" by simp
    then show ?thesis by (simp add: Num)
  next
    case NegInf
    with m show ?thesis by simp
  qed
next
  case NaN
  with w show ?thesis by simp
next
  case PosInf
  then show ?thesis by simp
next
  case NegInf
  with w show ?thesis by simp
qed

text \<open>The equations that evaluate the model on a concrete input.\<close>

lemmas eval_simps = checkContrast_def table_calcAPCA_def default_to_def no_options_def
  getMinimumLc_def USE_CASE_THRESHOLDS_def getRating_def getRecommendation_def toFixed_def
  string_of_nat.simps digit_def js_le_def binary64_def round_to_def overflow_def
  round_half_even_def nearest_even_def ilog2.simps pow2_def Let_def

section \<open>Threshold policy: the resolved minimum\<close>

text \<open>
  C1. For a use case other than body-text \<^verbatim>\<open>getMinimumLc\<close> returns the table value
  (large-text 60, ui-component 60, non-text 45, placeholder 45, disabled 45) whatever the
  font size and weight are; for body-text it returns 60 when the font size is at least 24
  or the weight is bold, and 75 otherwise.
\<close>

theorem getMinimumLc_policy:
  "getMinimumLc LargeText fs fw = Some (Num 60)
   \<and> getMinimumLc UiComponent fs fw = Some (Num 60)
   \<and> getMinimumLc NonText fs fw = Some (Num 45)
   \<and> getMinimumLc Placeholder fs fw = Some (Num 45)
   \<and> getMinimumLc Disabled fs fw = Some (Num 45)
   \<and> (uc \<noteq> BodyText \<longrightarrow> getMinimumLc uc fs fw = USE_CASE_THRESHOLDS uc)
   \<and> (js_ge fs (Num 24) \<or> fw = Bold \<longrightarrow> getMinimumLc BodyText fs fw = Some (Num 60))
   \<and> (\<not> (js_ge fs (Num 24) \<or> fw = Bold) \<longrightarrow> getMinimumLc BodyText fs fw = Some (Num 75))"
  by (simp add: getMinimumLc_def USE_CASE_THRESHOLDS_def)

theorem getMinimumLc_policy_witness:
  "getMinimumLc BodyText (Num 16) Normal = Some (Num 75)
   \<and> getMinimumLc BodyText (Num 16) Bold = Some (Num 60)
   \<and> getMinimumLc BodyText (Num 24) Normal = Some (Num 60)
   \<and> getMinimumLc LargeText (Num 16) Normal = Some (Num 60)
   \<and> getMinimumLc Placeholder (Num 14) Normal = Some (Num 45)
   \<and> getMinimumLc Disabled (Num 14) Normal = USE_CASE_THRESHOLDS Disabled"
  using getMinimumLc_policy [of "Num 16" Normal Disabled]
    getMinimumLc_policy [of "Num 16" Bold Disabled]
    getMinimumLc_policy [of "Num 24" Normal Disabled]
    getMinimumLc_policy [of "Num 14" Normal Disabled]
  by (simp add: USE_CASE_THRESHOLDS_def)

text \<open>
  C10. For every use case of the enumeration, every font size (zero, a negative number,
  NaN and the infinities included) and every font weight, \<^verbatim>\<open>getMinimumLc\<close> returns a
  number, never \<^verbatim>\<open>undefined\<close>, and that number is 45, 60 or 75, hence positive. It has
  no failing branch. A NaN font size is not rejected: it gives what any size below 24
  gives.
\<close>

theorem getMinimumLc_total:
  "(\<exists>n. getMinimumLc uc fs fw = Some (Num n) \<and> n \<in> {45, 60, 75} \<and> 0 < n)
   \<and> (js_lt (Num s) (Num 24) \<longrightarrow> getMinimumLc uc NaN fw = getMinimumLc uc (Num s) fw)
   \<and> getMinimumLc BodyText NaN Normal = Some (Num 75)"
  using getMinimumLc_range [of uc fs fw]
  by (auto simp add: getMinimumLc_def)

theorem getMinimumLc_total_witness:
  "(\<exists>n. getMinimumLc BodyText (Num (- 3)) Normal = Some (Num n) \<and> n \<in> {45, 60, 75} \<and> 0 < n)
   \<and> js_lt (Num 0) (Num 24)
   \<and> getMinimumLc BodyText NaN Bold = getMinimumLc BodyText (Num 0) Bold
   \<and> getMinimumLc BodyText NaN Normal = Some (Num 75)"
  using getMinimumLc_total [where uc = BodyText and fs = "Num (- 3)" and fw = Normal and s = 0]
    getMinimumLc_total [where uc = BodyText and fs = "Num (- 3)" and fw = Bold and s = 0]
  by simp

section \<open>Rating tiers\<close>

text \<open>
  C4. The rating is AAA for a magnitude of at least 90, AA from 75 up to 90, A from 60 up
  to 75 and fail below 60. It is non-decreasing in the magnitude (in the order
  fail, A, AA, AAA), and it depends on the magnitude alone: two evaluations of the same
  colour pair under different contexts give the same rating, the rating of the magnitude
  of the score.
\<close>

theorem getRating_tiers:
  "(js_ge m (Num 90) \<longrightarrow> getRating m = Rating_AAA)
   \<and> (js_ge m (Num 75) \<and> js_lt m (Num 90) \<longrightarrow> getRating m = Rating_AA)
   \<and> (js_ge m (Num 60) \<and> js_lt m (Num 75) \<longrightarrow> getRating m = Rating_A)
   \<and> (js_lt m (Num 60) \<longrightarrow> getRating m = Rating_fail)
   \<and> (js_le m m' \<longrightarrow> Rating_rank (getRating m) \<le> Rating_rank (getRating m'))
   \<and> (checkContrast calcAPCA fg bg options = Inr r
        \<and> checkContrast calcAPCA fg bg options' = Inr r'
        \<longrightarrow> rating r = rating r'
            \<and> (\<exists>l. calcAPCA fg bg = Inr l \<and> rating r = getRating (Math_abs l)))"
proof -
  have bands: "(js_ge m (Num 90) \<longrightarrow> getRating m = Rating_AAA)
   \<and> (js_ge m (Num 75) \<and> js_lt m (Num 90) \<longrightarrow> getRating m = Rating_AA)
   \<and> (js_ge m (Num 60) \<and> js_lt m (Num 75) \<longrightarrow> getRating m = Rating_A)
   \<and> (js_lt m (Num 60) \<longrightarrow> getRating m = Rating_fail)"
    by (cases m) (simp_all add: getRating_def)
  have mono: "js_le m m' \<longrightarrow> Rating_rank (getRating m) \<le> Rating_rank (getRating m')"
    by (cases m; cases m') (simp_all add: getRating_def js_le_def)
  have indep: "checkContrast calcAPCA fg bg options = Inr r
        \<and> checkContrast calcAPCA fg bg options' = Inr r'
        \<longrightarrow> rating r = rating r'
            \<and> (\<exists>l. calcAPCA fg bg = Inr l \<and> rating r = getRating (Math_abs l))"
  proof (cases "calcAPCA fg bg")
    case (Inl e)
    then show ?thesis by (simp add: checkContrast_Inl)
  next
    case (Inr l)
    show ?thesis
      using checkContrast_Inr [of calcAPCA fg bg l options]
        checkContrast_Inr [of calcAPCA fg bg l options'] Inr
      by auto
  qed
  from bands mono indep show ?thesis by blast
qed

theorem getRating_tiers_witness:
  "js_ge (Num 106) (Num 90) \<and> getRating (Num 106) = Rating_AAA
   \<and> js_ge (Num 77) (Num 75) \<and> js_lt (Num 77) (Num 90) \<and> getRating (Num 77) = Rating_AA
   \<and> js_ge (Num 60) (Num 60) \<and> js_lt (Num 60) (Num 75) \<and> getRating (Num 60) = Rating_A
   \<and> js_lt (Num 59) (Num 60) \<and> getRating (Num 59) = Rating_fail
   \<and> js_le (Num 59) (Num 77)
   \<and> Rating_rank (getRating (Num 59)) \<le> Rating_rank (getRating (Num 77))
   \<and> checkContrast
       (table_calcAPCA
          [((''#555555'', ''#ffffff''), binary64 (8593686751120146 / 10 ^ 14))])
       ''#555555'' ''#ffffff'' None
       = Inr \<lparr>lc = binary64 (859 / 10), lcAbsolute = binary64 (859 / 10), passes = True,
          minimumLc = Some (Num 75), polarity = DarkOnLight,
          recommendation = None,
          rating = Rating_AA\<rparr>
   \<and> checkContrast
       (table_calcAPCA
          [((''#555555'', ''#ffffff''), binary64 (8593686751120146 / 10 ^ 14))])
       ''#555555'' ''#ffffff'' (Some \<lparr>fontSize = None, fontWeight = None, useCase = Some Disabled\<rparr>)
       = Inr \<lparr>lc = binary64 (859 / 10), lcAbsolute = binary64 (859 / 10), passes = True,
          minimumLc = Some (Num 45), polarity = DarkOnLight,
          recommendation = None,
          rating = Rating_AA\<rparr>"
  using getRating_tiers [where m = "Num 106" and m' = "Num 106"
      and calcAPCA = "table_calcAPCA
          [((''#555555'', ''#ffffff''), binary64 (8593686751120146 / 10 ^ 14))]"
      and fg = "''#555555''" and bg = "''#ffffff''" and options = None
      and options' = "Some \<lparr>fontSize = None, fontWeight = None, useCase = Some Disabled\<rparr>"
      and r = "\<lparr>lc = binary64 (859 / 10), lcAbsolute = binary64 (859 / 10), passes = True,
          minimumLc = Some (Num 75), polarity = DarkOnLight,
          recommendation = None,
          rating = Rating_AA\<rparr>"
      and r' = "\<lparr>lc = binary64 (859 / 10), lcAbsolute = binary64 (859 / 10), passes = True,
          minimumLc = Some (Num 45), polarity = DarkOnLight,
          recommendation = None,
          rating = Rating_AA\<rparr>"]
    getRating_tiers [where m = "Num 77" and m' = "Num 77"]
    getRating_tiers [where m = "Num 60" and m' = "Num 60"]
    getRating_tiers [where m = "Num 59" and m' = "Num 77"]
  by (simp add: eval_simps)

section \<open>Polarity\<close>

text \<open>
  C7. The polarity of an evaluation is dark-on-light when the signed score the primitive
  returned is at least zero and light-on-dark when it is below zero; a score of exactly
  zero is dark-on-light.
\<close>

theorem polarity_sign:
  assumes "checkContrast calcAPCA fg bg options = Inr r"
  shows "\<exists>l. calcAPCA fg bg = Inr l
    \<and> (js_ge l (Num 0) \<longrightarrow> polarity r = DarkOnLight)
    \<and> (js_lt l (Num 0) \<longrightarrow> polarity r = LightOnDark)
    \<and> (l = Num 0 \<longrightarrow> polarity r = DarkOnLight)"
proof -
  from assms obtain l where l: "calcAPCA fg bg = Inr l"
    and pol: "polarity r = (if js_ge l (Num 0) then DarkOnLight else LightOnDark)"
    by (rule checkContrast_fields)
  have "js_lt l (Num 0) \<longrightarrow> \<not> js_ge l (Num 0)"
    by (cases l) simp_all
  with l pol show ?thesis by auto
qed

theorem polarity_sign_witness:
  "checkContrast
       (table_calcAPCA
          [((''#000000'', ''#ffffff''), binary64 (10604067321268862 / 10 ^ 14)),
           ((''#ffffff'', ''#000000''), binary64 (- 10788473318309848 / 10 ^ 14)),
           ((''#808080'', ''#808080''), Num 0)])
       ''#000000'' ''#ffffff'' None
     = Inr \<lparr>lc = Num 106, lcAbsolute = Num 106, passes = True,
          minimumLc = Some (Num 75), polarity = DarkOnLight,
          recommendation = None,
          rating = Rating_AAA\<rparr>
   \<and> js_ge (binary64 (10604067321268862 / 10 ^ 14)) (Num 0)
   \<and> checkContrast
       (table_calcAPCA
          [((''#000000'', ''#ffffff''), binary64 (10604067321268862 / 10 ^ 14)),
           ((''#ffffff'', ''#000000''), binary64 (- 10788473318309848 / 10 ^ 14)),
           ((''#808080'', ''#808080''), Num 0)])
       ''#ffffff'' ''#000000'' None
     = Inr \<lparr>lc = binary64 (- 1079 / 10), lcAbsolute = binary64 (1079 / 10), passes = True,
          minimumLc = Some (Num 75), polarity = LightOnDark,
          recommendation = None,
          rating = Rating_AAA\<rparr>
   \<and> js_lt (binary64 (- 10788473318309848 / 10 ^ 14)) (Num 0)
   \<and> checkContrast
       (table_calcAPCA
          [((''#000000'', ''#ffffff''), binary64 (10604067321268862 / 10 ^ 14)),
           ((''#ffffff'', ''#000000''), binary64 (- 10788473318309848 / 10 ^ 14)),
           ((''#808080'', ''#808080''), Num 0)])
       ''#808080'' ''#808080'' None
     = Inr \<lparr>lc = Num 0, lcAbsolute = Num 0, passes = False,
          minimumLc = Some (Num 75), polarity = DarkOnLight,
          recommendation = Some ''Contrast is too low for any text use. Current Lc: 0.0, need at least 75 for body-text.'',
          rating = Rating_fail\<rparr>"
  using polarity_sign [where calcAPCA = "table_calcAPCA
          [((''#000000'', ''#ffffff''), binary64 (10604067321268862 / 10 ^ 14)),
           ((''#ffffff'', ''#000000''), binary64 (- 10788473318309848 / 10 ^ 14)),
           ((''#808080'', ''#808080''), Num 0)]"
      and fg = "''#000000''" and bg = "''#ffffff''" and options = None
      and r = "\<lparr>lc = Num 106, lcAbsolute = Num 106, passes = True,
          minimumLc = Some (Num 75), polarity = DarkOnLight,
          recommendation = None,
          rating = Rating_AAA\<rparr>"]
    polarity_sign [where calcAPCA = "table_calcAPCA
          [((''#000000'', ''#ffffff''), binary64 (10604067321268862 / 10 ^ 14)),
           ((''#ffffff'', ''#000000''), binary64 (- 10788473318309848 / 10 ^ 14)),
           ((''#808080'', ''#808080''), Num 0)]"
      and fg = "''#ffffff''" and bg = "''#000000''" and options = None
      and r = "\<lparr>lc = binary64 (- 1079 / 10), lcAbsolute = binary64 (1079 / 10), passes = True,
          minimumLc = Some (Num 75), polarity = LightOnDark,
          recommendation = None,
          rating = Rating_AAA\<rparr>"]
    polarity_sign [where calcAPCA = "table_calcAPCA
          [((''#000000'', ''#ffffff''), binary64 (10604067321268862 / 10 ^ 14)),
           ((''#ffffff'', ''#000000''), binary64 (- 10788473318309848 / 10 ^ 14)),
           ((''#808080'', ''#808080''), Num 0)]"
      and fg = "''#808080''" and bg = "''#808080''" and options = None
      and r = "\<lparr>lc = Num 0, lcAbsolute = Num 0, passes = False,
          minimumLc = Some (Num 75), polarity = DarkOnLight,
          recommendation = Some ''Contrast is too low for any text use. Current Lc: 0.0, need at least 75 for body-text.'',
          rating = Rating_fail\<rparr>"]
  by (simp add: eval_simps)

section \<open>Recommendation: presence and wording\<close>

text \<open>
  C5. The recommendation of an evaluation is present exactly when the evaluation does not
  pass: \<^verbatim>\<open>getRecommendation\<close> returns \<^verbatim>\<open>null\<close> exactly when it is told that the
  pair passes, and the result of \<^verbatim>\<open>checkContrast\<close> has a recommendation if and only
  if its \<^verbatim>\<open>passes\<close> field is false.
\<close>

theorem recommendation_iff_failing:
  "(getRecommendation p la ml uc = None) = p
   \<and> (checkContrast calcAPCA fg bg options = Inr r
        \<longrightarrow> (recommendation r \<noteq> None) = (\<not> passes r))"
proof -
  have rec: "(getRecommendation p la ml uc = None) = p" for p la ml uc
    by (simp add: getRecommendation_def Let_def)
  have "(recommendation r \<noteq> None) = (\<not> passes r)"
    if "checkContrast calcAPCA fg bg options = Inr r"
    using that by (rule checkContrast_fields) (simp add: rec)
  with rec show ?thesis by blast
qed

theorem recommendation_iff_failing_witness:
  "getRecommendation True (Num 106) (Some (Num 75)) BodyText = None
   \<and> checkContrast
       (table_calcAPCA
          [((''#888888'', ''#999999''), Num 0)])
       ''#888888'' ''#999999'' None
     = Inr \<lparr>lc = Num 0, lcAbsolute = Num 0, passes = False,
          minimumLc = Some (Num 75), polarity = DarkOnLight,
          recommendation = Some ''Contrast is too low for any text use. Current Lc: 0.0, need at least 75 for body-text.'',
          rating = Rating_fail\<rparr>"
  using recommendation_iff_failing [where calcAPCA = "table_calcAPCA
          [((''#888888'', ''#999999''), Num 0)]"
      and fg = "''#888888''" and bg = "''#999999''" and options = None and p = True and la = "Num 106" and ml = "Some (Num 75)" and uc = BodyText
      and r = "\<lparr>lc = Num 0, lcAbsolute = Num 0, passes = False,
          minimumLc = Some (Num 75), polarity = DarkOnLight,
          recommendation = Some ''Contrast is too low for any text use. Current Lc: 0.0, need at least 75 for body-text.'',
          rating = Rating_fail\<rparr>"]
  by (simp add: eval_simps)

text \<open>
  C6. In a failing evaluation the message is chosen by the band of the unrounded
  magnitude. Below 15 it is the "too low for any text use" message, with the magnitude
  to one decimal, the required minimum and the use case. From 15 up to 45 it is the
  "only suitable for decorative or non-essential elements" message, with the deficit
  (the minimum less the magnitude) rounded to an integer, and the use case. From 45 on
  it is the "increase contrast by ~N points" message, N being the rounded deficit.
\<close>

theorem recommendation_bands:
  assumes "checkContrast calcAPCA fg bg options = Inr r" and "\<not> passes r"
  shows "\<exists>l m. calcAPCA fg bg = Inr l \<and> minimumLc r = Some (Num m) \<and> m \<in> {45, 60, 75}
    \<and> (js_lt (Math_abs l) (Num 15) \<longrightarrow>
         recommendation r =
           Some (''Contrast is too low for any text use. Current Lc: '' @ toFixed (Math_abs l) 1
                 @ '', need at least '' @ Number_toString (Num m)
                 @ '' for '' @ UseCase_string (useCase_of options) @ ''.''))
    \<and> (js_ge (Math_abs l) (Num 15) \<and> js_lt (Math_abs l) (Num 45) \<longrightarrow>
         recommendation r =
           Some (''Only suitable for decorative or non-essential elements. Increase contrast by ~''
                 @ toFixed (js_sub (Num m) (Math_abs l)) 0
                 @ '' Lc points for '' @ UseCase_string (useCase_of options) @ ''.''))
    \<and> (js_ge (Math_abs l) (Num 45) \<longrightarrow>
         recommendation r =
           Some (''Increase contrast by ~'' @ toFixed (js_sub (Num m) (Math_abs l)) 0
                 @ '' Lc points. Try darkening the text or lightening the background (or vice versa for dark mode).''))"
proof -
  from assms(1) obtain l where l: "calcAPCA fg bg = Inr l"
    and ml: "minimumLc r = minimumLc_of options"
    and rec: "recommendation r =
           getRecommendation (passes r) (Math_abs l) (minimumLc r) (useCase_of options)"
    by (rule checkContrast_fields)
  from ml obtain m where m: "minimumLc r = Some (Num m)" "m \<in> {45, 60, 75}"
    using getMinimumLc_range [of "useCase_of options" "fontSize_of options" "fontWeight_of options"]
    by auto
  have lt: "\<not> js_lt x (Num 15)" if "\<not> js_lt x (Num 45)" for x
    using that by (cases x) simp_all
  have ge: "\<not> js_lt x c" if "js_ge x c" for x c
    using that by (cases x; cases c) simp_all
  have rec': "recommendation r =
           getRecommendation False (Math_abs l) (Some (Num m)) (useCase_of options)"
    using rec assms(2) m(1) by simp
  have b1: "js_lt (Math_abs l) (Num 15) \<longrightarrow>
         recommendation r =
           Some (''Contrast is too low for any text use. Current Lc: '' @ toFixed (Math_abs l) 1
                 @ '', need at least '' @ Number_toString (Num m)
                 @ '' for '' @ UseCase_string (useCase_of options) @ ''.'')"
    unfolding rec' by (simp add: getRecommendation_def Let_def)
  have b2: "js_ge (Math_abs l) (Num 15) \<and> js_lt (Math_abs l) (Num 45) \<longrightarrow>
         recommendation r =
           Some (''Only suitable for decorative or non-essential elements. Increase contrast by ~''
                 @ toFixed (js_sub (Num m) (Math_abs l)) 0
                 @ '' Lc points for '' @ UseCase_string (useCase_of options) @ ''.'')"
    unfolding rec' using ge [of "Math_abs l" "Num 15"]
    by (simp add: getRecommendation_def Let_def)
  have b3: "js_ge (Math_abs l) (Num 45) \<longrightarrow>
         recommendation r =
           Some (''Increase contrast by ~'' @ toFixed (js_sub (Num m) (Math_abs l)) 0
                 @ '' Lc points. Try darkening the text or lightening the background (or vice versa for dark mode).'')"
    unfolding rec' using ge [of "Math_abs l" "Num 45"] lt [of "Math_abs l"]
    by (simp add: getRecommendation_def Let_def)
  from l m b1 b2 b3 show ?thesis by blast
qed

theorem recommendation_bands_witness:
  "checkContrast
       (table_calcAPCA
          [((''#777777'', ''#999999''), binary64 (14488403329414524 / 10 ^ 15)),
           ((''#8c8c8c'', ''#1a1a1a''), binary64 (- 3925598350505163 / 10 ^ 14)),
           ((''#777777'', ''#ffffff''), binary64 (7111110332561125 / 10 ^ 14))])
       ''#777777'' ''#999999'' None
     = Inr \<lparr>lc = binary64 (145 / 10), lcAbsolute = binary64 (145 / 10), passes = False,
          minimumLc = Some (Num 75), polarity = DarkOnLight,
          recommendation = Some ''Contrast is too low for any text use. Current Lc: 14.5, need at least 75 for body-text.'',
          rating = Rating_fail\<rparr>
   \<and> js_lt (Math_abs (binary64 (14488403329414524 / 10 ^ 15))) (Num 15)
   \<and> checkContrast
       (table_calcAPCA
          [((''#777777'', ''#999999''), binary64 (14488403329414524 / 10 ^ 15)),
           ((''#8c8c8c'', ''#1a1a1a''), binary64 (- 3925598350505163 / 10 ^ 14)),
           ((''#777777'', ''#ffffff''), binary64 (7111110332561125 / 10 ^ 14))])
       ''#8c8c8c'' ''#1a1a1a'' (Some \<lparr>fontSize = None, fontWeight = None, useCase = Some LargeText\<rparr>)
     = Inr \<lparr>lc = binary64 (- 393 / 10), lcAbsolute = binary64 (393 / 10), passes = False,
          minimumLc = Some (Num 60), polarity = LightOnDark,
          recommendation = Some ''Only suitable for decorative or non-essential elements. Increase contrast by ~21 Lc points for large-text.'',
          rating = Rating_fail\<rparr>
   \<and> js_ge (Math_abs (binary64 (- 3925598350505163 / 10 ^ 14))) (Num 15)
   \<and> js_lt (Math_abs (binary64 (- 3925598350505163 / 10 ^ 14))) (Num 45)
   \<and> checkContrast
       (table_calcAPCA
          [((''#777777'', ''#999999''), binary64 (14488403329414524 / 10 ^ 15)),
           ((''#8c8c8c'', ''#1a1a1a''), binary64 (- 3925598350505163 / 10 ^ 14)),
           ((''#777777'', ''#ffffff''), binary64 (7111110332561125 / 10 ^ 14))])
       ''#777777'' ''#ffffff'' None
     = Inr \<lparr>lc = binary64 (711 / 10), lcAbsolute = binary64 (711 / 10), passes = False,
          minimumLc = Some (Num 75), polarity = DarkOnLight,
          recommendation = Some ''Increase contrast by ~4 Lc points. Try darkening the text or lightening the background (or vice versa for dark mode).'',
          rating = Rating_A\<rparr>
   \<and> js_ge (Math_abs (binary64 (7111110332561125 / 10 ^ 14))) (Num 45)"
  using recommendation_bands [where calcAPCA = "table_calcAPCA
          [((''#777777'', ''#999999''), binary64 (14488403329414524 / 10 ^ 15)),
           ((''#8c8c8c'', ''#1a1a1a''), binary64 (- 3925598350505163 / 10 ^ 14)),
           ((''#777777'', ''#ffffff''), binary64 (7111110332561125 / 10 ^ 14))]"
      and fg = "''#777777''" and bg = "''#999999''" and options = None
      and r = "\<lparr>lc = binary64 (145 / 10), lcAbsolute = binary64 (145 / 10), passes = False,
          minimumLc = Some (Num 75), polarity = DarkOnLight,
          recommendation = Some ''Contrast is too low for any text use. Current Lc: 14.5, need at least 75 for body-text.'',
          rating = Rating_fail\<rparr>"]
    recommendation_bands [where calcAPCA = "table_calcAPCA
          [((''#777777'', ''#999999''), binary64 (14488403329414524 / 10 ^ 15)),
           ((''#8c8c8c'', ''#1a1a1a''), binary64 (- 3925598350505163 / 10 ^ 14)),
           ((''#777777'', ''#ffffff''), binary64 (7111110332561125 / 10 ^ 14))]"
      and fg = "''#8c8c8c''" and bg = "''#1a1a1a''" and options = "Some \<lparr>fontSize = None, fontWeight = None, useCase = Some LargeText\<rparr>"
      and r = "\<lparr>lc = binary64 (- 393 / 10), lcAbsolute = binary64 (393 / 10), passes = False,
          minimumLc = Some (Num 60), polarity = LightOnDark,
          recommendation = Some ''Only suitable for decorative or non-essential elements. Increase contrast by ~21 Lc points for large-text.'',
          rating = Rating_fail\<rparr>"]
    recommendation_bands [where calcAPCA = "table_calcAPCA
          [((''#777777'', ''#999999''), binary64 (14488403329414524 / 10 ^ 15)),
           ((''#8c8c8c'', ''#1a1a1a''), binary64 (- 3925598350505163 / 10 ^ 14)),
           ((''#777777'', ''#ffffff''), binary64 (7111110332561125 / 10 ^ 14))]"
      and fg = "''#777777''" and bg = "''#ffffff''" and options = None
      and r = "\<lparr>lc = binary64 (711 / 10), lcAbsolute = binary64 (711 / 10), passes = False,
          minimumLc = Some (Num 75), polarity = DarkOnLight,
          recommendation = Some ''Increase contrast by ~4 Lc points. Try darkening the text or lightening the background (or vice versa for dark mode).'',
          rating = Rating_A\<rparr>"]
  by (simp add: eval_simps)

text \<open>
  The deficit is a binary64 difference. For the magnitude 15.500000000000002 and the
  minimum 75 it is exactly 59.5, which \<^verbatim>\<open>toFixed(0)\<close> prints as 60.
\<close>

lemma deficit_is_binary64:
  "js_sub (Num 75) (binary64 (15500000000000002 / 10 ^ 15)) = Num (119 / 2)
   \<and> getRecommendation False (binary64 (15500000000000002 / 10 ^ 15)) (Some (Num 75)) BodyText
     = Some ''Only suitable for decorative or non-essential elements. Increase contrast by ~60 Lc points for body-text.''"
  by (simp add: eval_simps)

section \<open>The pass decision and the rounded fields\<close>

text \<open>
  C2 (as amended). The \<^verbatim>\<open>passes\<close> field is the comparison of the unrounded magnitude,
  the absolute value of the score the primitive returned, with the returned minimum. The
  returned \<^verbatim>\<open>lcAbsolute\<close> is that magnitude rounded to one decimal, as the program
  computes it in binary64 (\<^verbatim>\<open>Math.round(lcAbsolute * 10) / 10\<close>); a pair that passes has a
  returned \<^verbatim>\<open>lcAbsolute\<close> of at least the minimum, and the converse is not claimed.
\<close>

theorem passes_unrounded:
  assumes "checkContrast calcAPCA fg bg options = Inr r"
  shows "\<exists>l. calcAPCA fg bg = Inr l
    \<and> passes r = js_ge (Math_abs l) (ToNumber (minimumLc r))
    \<and> lcAbsolute r = div10 (Math_round (mul10 (Math_abs l)))
    \<and> (passes r \<longrightarrow> js_ge (lcAbsolute r) (ToNumber (minimumLc r)))"
proof -
  from assms obtain l where l: "calcAPCA fg bg = Inr l"
    and la: "lcAbsolute r = div10 (Math_round (mul10 (Math_abs l)))"
    and p: "passes r = js_ge (Math_abs l) (ToNumber (minimumLc r))"
    and ml: "minimumLc r = minimumLc_of options"
    by (rule checkContrast_fields)
  obtain k :: int where k: "minimumLc r = Some (Num (of_int k))" "0 < k" "k * 10 < 2 ^ 53"
  proof -
    from getMinimumLc_range [of "useCase_of options" "fontSize_of options" "fontWeight_of options"]
    consider "minimumLc r = Some (Num 45)" | "minimumLc r = Some (Num 60)"
      | "minimumLc r = Some (Num 75)"
      unfolding ml by blast
    then show thesis
    proof cases
      case 1 then show thesis using that [of 45] by simp
    next
      case 2 then show thesis using that [of 60] by simp
    next
      case 3 then show thesis using that [of 75] by simp
    qed
  qed
  have "js_ge (lcAbsolute r) (ToNumber (minimumLc r))" if "passes r"
  proof -
    from that p k(1) have "js_ge (Math_abs l) (Num (of_int k))" by simp
    from round1_ge [OF k(2) k(3) this] show ?thesis by (simp add: la k(1))
  qed
  with l p la show ?thesis by blast
qed

theorem passes_unrounded_witness:
  "checkContrast
       (table_calcAPCA
          [((''#000000'', ''#ffffff''), binary64 (10604067321268862 / 10 ^ 14))])
       ''#000000'' ''#ffffff'' None
     = Inr \<lparr>lc = Num 106, lcAbsolute = Num 106, passes = True,
          minimumLc = Some (Num 75), polarity = DarkOnLight,
          recommendation = None,
          rating = Rating_AAA\<rparr>
   \<and> js_ge (Math_abs (binary64 (10604067321268862 / 10 ^ 14))) (Num 75)
   \<and> js_ge (Num 106) (Num 75)"
  using passes_unrounded [where calcAPCA = "table_calcAPCA
          [((''#000000'', ''#ffffff''), binary64 (10604067321268862 / 10 ^ 14))]"
      and fg = "''#000000''" and bg = "''#ffffff''" and options = None
      and r = "\<lparr>lc = Num 106, lcAbsolute = Num 106, passes = True,
          minimumLc = Some (Num 75), polarity = DarkOnLight,
          recommendation = None,
          rating = Rating_AAA\<rparr>"]
  by (simp add: eval_simps)

text \<open>
  The converse fails. The APCA score of \<^verbatim>\<open>#0e0e0e\<close> on \<^verbatim>\<open>#cacaca\<close> is
  74.95983283185059: the magnitude is below the minimum 75 of body text, so the pair does
  not pass, and the returned \<^verbatim>\<open>lcAbsolute\<close> is \<^verbatim>\<open>Math.round(749.598...) / 10 = 75\<close>,
  which is not below 75.
\<close>

theorem passes_rounded_counterexample:
  "checkContrast
       (table_calcAPCA
          [((''#0e0e0e'', ''#cacaca''), binary64 (7495983283185059 / 10 ^ 14))])
       ''#0e0e0e'' ''#cacaca'' None
     = Inr \<lparr>lc = Num 75, lcAbsolute = Num 75, passes = False,
          minimumLc = Some (Num 75), polarity = DarkOnLight,
          recommendation = Some ''Increase contrast by ~0 Lc points. Try darkening the text or lightening the background (or vice versa for dark mode).'',
          rating = Rating_A\<rparr>
   \<and> passes \<lparr>lc = Num 75, lcAbsolute = Num 75, passes = False,
          minimumLc = Some (Num 75), polarity = DarkOnLight,
          recommendation = Some ''Increase contrast by ~0 Lc points. Try darkening the text or lightening the background (or vice versa for dark mode).'',
          rating = Rating_A\<rparr>
       \<noteq> js_ge (lcAbsolute \<lparr>lc = Num 75, lcAbsolute = Num 75, passes = False,
          minimumLc = Some (Num 75), polarity = DarkOnLight,
          recommendation = Some ''Increase contrast by ~0 Lc points. Try darkening the text or lightening the background (or vice versa for dark mode).'',
          rating = Rating_A\<rparr>)
           (ToNumber (minimumLc \<lparr>lc = Num 75, lcAbsolute = Num 75, passes = False,
          minimumLc = Some (Num 75), polarity = DarkOnLight,
          recommendation = Some ''Increase contrast by ~0 Lc points. Try darkening the text or lightening the background (or vice versa for dark mode).'',
          rating = Rating_A\<rparr>))"
  by (simp add: eval_simps)

text \<open>
  The rounding is the program's: the product \<^verbatim>\<open>x * 10\<close> is a binary64 product. For the
  number 0.35 it is exactly 3.5, although ten times the real value of that number is
  below 3.5, so 0.35 is returned as 0.4.
\<close>

lemma rounding_is_binary64:
  "mul10 (binary64 (35 / 100)) = Num (7 / 2)
   \<and> div10 (Math_round (mul10 (binary64 (35 / 100)))) = binary64 (4 / 10)"
  by (simp add: eval_simps)

text \<open>
  The two rounded fields agree in magnitude whenever the product of the score and ten, as
  the program computes it, is not negative or is not halfway between two integers.
\<close>

lemma lcAbsolute_abs_lc:
  assumes "checkContrast calcAPCA fg bg options = Inr r"
    and "calcAPCA fg bg = Inr l"
    and "case mul10 l of Num v \<Rightarrow> 0 \<le> v \<or> frac v \<noteq> 1 / 2 | _ \<Rightarrow> True"
  shows "lcAbsolute r = Math_abs (lc r)"
proof -
  from assms(1) obtain l' where l': "calcAPCA fg bg = Inr l'"
    and lc: "lc r = div10 (Math_round (mul10 l'))"
    and la: "lcAbsolute r = div10 (Math_round (mul10 (Math_abs l')))"
    by (rule checkContrast_fields)
  from l' assms(2) have [simp]: "l' = l" by simp
  have "lcAbsolute r = div10 (Math_round (Math_abs (mul10 l)))"
    by (simp add: la mul10_Math_abs)
  also have "\<dots> = div10 (Math_abs (Math_round (mul10 l)))"
    by (simp only: Math_round_Math_abs [OF assms(3)])
  also have "\<dots> = Math_abs (lc r)"
    by (simp add: lc div10_Math_abs)
  finally show ?thesis .
qed

text \<open>
  C3. The returned \<^verbatim>\<open>lcAbsolute\<close> is documented as the absolute value of the returned
  \<^verbatim>\<open>lc\<close>. At a negative score whose binary64 product with ten is halfway between two
  integers the two fields are rounded apart. The APCA formula gives \<^verbatim>\<open>#b7d294\<close> on
  \<^verbatim>\<open>#e3245f\<close> the score \<open>-40.65\<close>; \<^verbatim>\<open>-40.65 * 10\<close> is \<open>-406.5\<close>,
  \<^verbatim>\<open>Math.round(-406.5)\<close> is \<open>-406\<close> and \<^verbatim>\<open>Math.round(406.5)\<close> is \<open>407\<close>, so
  \<^verbatim>\<open>lc\<close> is \<open>-40.6\<close> and \<^verbatim>\<open>lcAbsolute\<close> is \<open>40.7\<close>.
\<close>

theorem lcAbsolute_negative_tie:
  "mul10 (binary64 (- 4065 / 10 ^ 2)) = Num (- 813 / 2)
   \<and> checkContrast
       (table_calcAPCA
          [((''#b7d294'', ''#e3245f''), binary64 (- 4065 / 10 ^ 2))])
       ''#b7d294'' ''#e3245f'' None
     = Inr \<lparr>lc = binary64 (- 406 / 10), lcAbsolute = binary64 (407 / 10), passes = False,
          minimumLc = Some (Num 75), polarity = LightOnDark,
          recommendation = Some ''Only suitable for decorative or non-essential elements. Increase contrast by ~34 Lc points for body-text.'',
          rating = Rating_fail\<rparr>
   \<and> lcAbsolute \<lparr>lc = binary64 (- 406 / 10), lcAbsolute = binary64 (407 / 10), passes = False,
          minimumLc = Some (Num 75), polarity = LightOnDark,
          recommendation = Some ''Only suitable for decorative or non-essential elements. Increase contrast by ~34 Lc points for body-text.'',
          rating = Rating_fail\<rparr>
       \<noteq> Math_abs (lc \<lparr>lc = binary64 (- 406 / 10), lcAbsolute = binary64 (407 / 10), passes = False,
          minimumLc = Some (Num 75), polarity = LightOnDark,
          recommendation = Some ''Only suitable for decorative or non-essential elements. Increase contrast by ~34 Lc points for body-text.'',
          rating = Rating_fail\<rparr>)"
  by (simp add: eval_simps)

section \<open>Swapping foreground and background\<close>




section \<open>The tool handler\<close>

text \<open>
  C9. The \<^verbatim>\<open>check_contrast\<close> tool is specified to answer with the serialized
  \<^verbatim>\<open>ContrastResult\<close> of the evaluator. The registered handler does not call the evaluator:
  for the arguments black on white with the default context it answers with the text of
  an object whose fields are \<^verbatim>\<open>status\<close> (the string \<^verbatim>\<open>not_implemented\<close>),
  \<^verbatim>\<open>message\<close> and \<^verbatim>\<open>input\<close> (the arguments echoed back).
\<close>

theorem check_contrast_handler_placeholder:
  "check_contrast_handler JSON_stringify
     (JObject
        [(''foreground'', JString ''#000000''),
         (''background'', JString ''#ffffff''),
         (''fontSize'', JNumber (Num 16)),
         (''fontWeight'', JString ''normal''),
         (''useCase'', JString ''body-text'')])
   = \<lparr>content =
        [\<lparr>content_type = ''text'',
          content_text = JSON_stringify
            (JObject
               [(''status'', JString ''not_implemented''),
                (''message'', JString ''APCA contrast checking will be implemented in issue #2''),
                (''input'',
                 JObject
                   [(''foreground'', JString ''#000000''),
                    (''background'', JString ''#ffffff''),
                    (''fontSize'', JNumber (Num 16)),
                    (''fontWeight'', JString ''normal''),
                    (''useCase'', JString ''body-text'')])])\<rparr>]\<rparr>"
  by (simp add: check_contrast_handler_def)

end
